theory Spec2Isabelle
  imports Complex_Main "HOL-Library.AList"
begin

section \<open>Python values the transport handles\<close>

text \<open>
  The transport of \<^verbatim>\<open>httpx/_transports/aiohttp.py\<close> bridges the request and response
  objects of the calling library to the aiohttp engine. A Python \<^verbatim>\<open>str\<close> is modelled as a
  \<^typ>\<open>string\<close> (code points below 256), a \<^verbatim>\<open>bytes\<close> object as a wrapped list of
  bytes, a \<^verbatim>\<open>dict\<close> with string keys as an association list in insertion order.
\<close>

datatype pybytes = Bytes string

datatype ssl_context = SSLContext nat

datatype pyval =
    PyNone
  | PyBool bool
  | PyInt int
  | PyFloat real
  | PyStr string
  | PyDict "(string \<times> string) list"
  | PySSL ssl_context

type_synonym 'v pydict = "(string \<times> 'v) list"

text \<open>
  \<^verbatim>\<open>dict(pairs)\<close>: the pairs are inserted from left to right; inserting a key that is
  already present overwrites its value and keeps its position.
\<close>

definition py_dict :: "(string \<times> 'v) list \<Rightarrow> 'v pydict" where
  "py_dict pairs = foldl (\<lambda>d (k, v). AList.update k v d) [] pairs"

subsection \<open>\<^verbatim>\<open>Headers.items()\<close>\<close>

definition lower_char :: "char \<Rightarrow> char" where
  "lower_char c =
     (let n = (of_char c :: nat) in if 65 \<le> n \<and> n \<le> 90 then char_of (n + 32) else c)"

definition lower_ascii :: "string \<Rightarrow> string" where
  "lower_ascii s = map lower_char s"

text \<open>
  The \<^verbatim>\<open>items()\<close> of the calling library's \<^verbatim>\<open>Headers\<close> class (\<^verbatim>\<open>httpx/_models.py\<close>),
  which the transport calls on the headers of the request and of the proxy. The class
  keeps the pairs in order, each with its name in lower case; \<^verbatim>\<open>items()\<close> goes through
  them and builds a dictionary from the lower-case name to the value, appending
  \<^verbatim>\<open>", "\<close> and the value when the name is already there.
\<close>

definition add_item :: "string pydict \<Rightarrow> string \<times> string \<Rightarrow> string pydict" where
  "add_item d kv =
     (case kv of (k, v) \<Rightarrow>
        AList.update (lower_ascii k)
          (case map_of d (lower_ascii k) of Some old \<Rightarrow> old @ '', '' @ v | None \<Rightarrow> v) d)"

definition Headers_items :: "(string \<times> string) list \<Rightarrow> (string \<times> string) list" where
  "Headers_items raw = foldl add_item [] raw"

text \<open>The values given to a lower-case name, in order, and their joining.\<close>

definition values_of :: "string \<Rightarrow> (string \<times> string) list \<Rightarrow> string list" where
  "values_of n raw = map snd (filter (\<lambda>kv. lower_ascii (fst kv) = n) raw)"

fun joined :: "string list \<Rightarrow> string" where
  "joined [] = []"
| "joined [v] = v"
| "joined (v # w # vs) = v @ '', '' @ joined (w # vs)"

definition optional_int :: "int option \<Rightarrow> pyval" where
  "optional_int x = (case x of None \<Rightarrow> PyNone | Some n \<Rightarrow> PyInt n)"

definition optional_float :: "real option \<Rightarrow> pyval" where
  "optional_float x = (case x of None \<Rightarrow> PyNone | Some r \<Rightarrow> PyFloat r)"

subsection \<open>ASCII encoding and \<^verbatim>\<open>repr\<close> of a string\<close>

definition is_ascii :: "char \<Rightarrow> bool" where
  "is_ascii c = (\<not> digit7 c)"

definition hex_digit :: "nat \<Rightarrow> char" where
  "hex_digit n = (if n < 10 then char_of (48 + n) else char_of (87 + n))"

definition quote :: char where
  "quote = CHR 0x27"

definition dquote :: char where
  "dquote = CHR 0x22"

definition backslash :: char where
  "backslash = CHR 0x5C"

text \<open>
  \<^verbatim>\<open>repr\<close> of a \<^verbatim>\<open>str\<close>, as CPython writes it for code points below 256: the string is
  quoted with single quotes unless it holds a single quote and no double quote; the quote
  character and the backslash are escaped, tab, newline and carriage return get their
  letter escapes, every other non-printable character is written as \<^verbatim>\<open>\xNN\<close>.
\<close>

definition printable :: "char \<Rightarrow> bool" where
  "printable c =
     (let n = (of_char c :: nat)
      in (32 \<le> n \<and> n < 127) \<or> (161 \<le> n \<and> n \<noteq> 173))"

definition repr_char :: "char \<Rightarrow> char \<Rightarrow> string" where
  "repr_char q c =
     (if c = q \<or> c = backslash then [backslash, c]
      else if c = CHR 0x09 then [backslash, CHR ''t'']
      else if c = CHR 0x0A then [backslash, CHR ''n'']
      else if c = CHR 0x0D then [backslash, CHR ''r'']
      else if printable c then [c]
      else [backslash, CHR ''x'',
            hex_digit ((of_char c :: nat) div 16), hex_digit ((of_char c :: nat) mod 16)])"

definition repr :: "string \<Rightarrow> string" where
  "repr s =
     (let q = (if quote \<in> set s \<and> dquote \<notin> set s then dquote else quote)
      in [q] @ concat (map (repr_char q) s) @ [q])"

section \<open>Exceptions\<close>

text \<open>
  The engine's exception classes that the source names. An engine exception is given by
  the classes \<^verbatim>\<open>isinstance\<close> answers for and by its \<^verbatim>\<open>str()\<close>: the class hierarchy
  itself belongs to the engine.
\<close>

datatype exc_class =
    ClientError
  | ClientConnectorError
  | ClientOSError
  | ServerDisconnectedError
  | ClientResponseError
  | ClientPayloadError
  | TimeoutError

record engine_exc =
  classes :: "exc_class set"
  str_of :: string

definition isinstance :: "engine_exc \<Rightarrow> exc_class \<Rightarrow> bool" where
  "isinstance exc c = (c \<in> classes exc)"

datatype httpx_error =
    ConnectError
  | NetworkError
  | RemoteProtocolError
  | ProtocolError
  | ReadError
  | TimeoutException

text \<open>
  What a call of the transport can raise. \<open>HTTPXError kind msg cause\<close> is
  \<^verbatim>\<open>raise kind(msg) from cause\<close>; \<open>EngineException\<close> is an engine exception that no
  \<^verbatim>\<open>except\<close> clause of the transport catches.
\<close>

datatype exception =
    HTTPXError httpx_error string engine_exc
  | EngineException engine_exc
  | ValueError string
  | ImportError string
  | UnicodeEncodeError string
  | UnicodeDecodeError pybytes
  | AttributeError string
  | TypeError string

definition encode_ascii :: "string \<Rightarrow> exception + pybytes" where
  "encode_ascii s = (if list_all is_ascii s then Inr (Bytes s) else Inl (UnicodeEncodeError s))"

definition decode_ascii :: "pybytes \<Rightarrow> exception + string" where
  "decode_ascii b =
     (case b of Bytes s \<Rightarrow> if list_all is_ascii s then Inr s else Inl (UnicodeDecodeError b))"

section \<open>Configuration\<close>

record URL =
  scheme :: string
  url_str :: string

record Proxy =
  proxy_url :: URL
  proxy_headers :: "(string \<times> string) list"

record Limits =
  max_connections :: "int option"
  max_keepalive_connections :: "int option"
  keepalive_expiry :: "real option"

datatype verify_arg = VerifyContext ssl_context | VerifyPath string | VerifyBool bool

datatype proxy_arg = ProxyStr string | ProxyURL URL | ProxyDescriptor Proxy

text \<open>
  The parameters of \<^verbatim>\<open>AioHTTPTransport.__init__\<close>. \<open>proxy_headers\<close> are the pairs of
  \<^verbatim>\<open>proxy.headers\<close> as they were given, \<open>url_str\<close> is what \<^verbatim>\<open>str(url)\<close> returns.
\<close>

record init_args =
  verify :: verify_arg
  cert :: "pyval option"
  trust_env :: bool
  http1 :: bool
  http2 :: bool
  limits :: Limits
  proxy :: "proxy_arg option"
  socket_options :: "pyval option"

datatype connector_class = TCPConnector | HTTP2ClientConnector

text \<open>
  What the constructor and \<^verbatim>\<open>aclose\<close> use of other modules, taken as parameters:
  \<^verbatim>\<open>create_ssl_context\<close> of \<^verbatim>\<open>httpx._config\<close>; its \<^verbatim>\<open>Proxy\<close> constructor, which
  parses a string or takes a URL and raises for a URL it does not accept; whether
  \<^verbatim>\<open>import aiohttp_http2\<close> succeeds; and whether a connector of a class has a
  \<^verbatim>\<open>close\<close> attribute.
\<close>

record externals =
  create_ssl_context :: "verify_arg \<Rightarrow> pyval option \<Rightarrow> bool \<Rightarrow> ssl_context"
  Proxy_of_str :: "string \<Rightarrow> exception + Proxy"
  Proxy_of_URL :: "URL \<Rightarrow> exception + Proxy"
  aiohttp_http2_installed :: bool
  hasattr_close :: "connector_class \<Rightarrow> bool"

record ClientTimeout =
  total :: "real option"
  connect :: "real option"
  sock_connect :: "real option"
  sock_read :: "real option"

record connector =
  connector_class :: connector_class
  connector_kwargs :: "pyval pydict"

record session_kwargs =
  kw_connector :: connector
  kw_timeout :: ClientTimeout
  kw_auto_decompress :: bool
  kw_trust_env :: bool

record session =
  sid :: nat
  created_with :: session_kwargs

section \<open>Requests, responses and the engine\<close>

datatype method_arg = MethodBytes pybytes | MethodStr string

text \<open>
  A request: \<open>headers\<close> are the pairs of \<^verbatim>\<open>request.headers\<close> as the caller gave them,
  in order; \<open>stream\<close> is \<open>Some chunks\<close> when \<^verbatim>\<open>request.stream\<close> has \<^verbatim>\<open>__aiter__\<close>
  and yields \<open>chunks\<close>, and \<open>None\<close> when it has not.
\<close>

record request =
  url :: URL
  headers :: "(string \<times> string) list"
  req_method :: method_arg
  stream :: "pybytes list option"

record StreamReader =
  buffer :: "pybytes list"
  at_eof :: bool

text \<open>
  \<^verbatim>\<open>aiohttp.StreamReader()\<close>, the call of line 149: the engine's constructor has the
  required parameters \<^verbatim>\<open>protocol\<close> and \<^verbatim>\<open>limit\<close>, so the call without arguments
  raises.
\<close>

definition new_StreamReader :: "exception + StreamReader" where
  "new_StreamReader =
     Inl (TypeError (''StreamReader.__init__() missing 2 required positional arguments: '' @
                     repr ''protocol'' @ '' and '' @ repr ''limit''))"

definition feed_data :: "StreamReader \<Rightarrow> pybytes \<Rightarrow> StreamReader" where
  "feed_data r chunk = r\<lparr>buffer := buffer r @ [chunk]\<rparr>"

definition feed_eof :: "StreamReader \<Rightarrow> StreamReader" where
  "feed_eof r = r\<lparr>at_eof := True\<rparr>"

record engine_call =
  call_method :: string
  call_url :: string
  call_headers :: "string pydict"
  call_data :: "StreamReader option"
  allow_redirects :: bool

text \<open>
  The engine's response: \<open>raw_headers\<close> is what \<^verbatim>\<open>aiohttp_response.headers.items()\<close>
  yields, \<open>content\<close> the outcomes of the successive \<^verbatim>\<open>content.read(65536)\<close> calls (past
  the end of the list a read returns the empty chunk).
\<close>

datatype read_result = ReadBytes pybytes | ReadRaises engine_exc

record ClientResponse =
  status :: int
  raw_headers :: "(string \<times> string) list"
  content :: "read_result list"

datatype AsyncResponseStream = AsyncResponseStream "read_result list"

record Response =
  status_code :: int
  response_headers :: "(pybytes \<times> pybytes) list"
  response_stream :: AsyncResponseStream
  extensions :: "pyval pydict"

text \<open>What the transport does to the engine, in order.\<close>

datatype event =
    ImportAttempted string
  | ConnectorCreated connector
  | SessionCreated session
  | SessionClosed session
  | ConnectorClosed connector
  | RequestSent session engine_call
  | ResponseReleased

text \<open>
  The transport object: \<open>timeout\<close>, \<open>the_connector\<close>, \<open>the_session\<close> and
  \<open>the_session_kwargs\<close> are the attributes \<^verbatim>\<open>_timeout\<close>, \<^verbatim>\<open>_connector\<close>,
  \<^verbatim>\<open>_session\<close> and \<^verbatim>\<open>_session_kwargs\<close>; \<open>trace\<close> records the engine operations
  done through it so far.
\<close>

record transport =
  timeout :: ClientTimeout
  the_connector :: connector
  the_session :: "session option"
  the_session_kwargs :: session_kwargs
  trace :: "event list"

section \<open>Construction (\<^verbatim>\<open>AioHTTPTransport.__init__\<close>)\<close>

text \<open>
  Line 68: a string or URL is wrapped into a proxy descriptor, which may raise; a
  descriptor is kept.
\<close>

definition normalize_proxy :: "externals \<Rightarrow> proxy_arg option \<Rightarrow> exception + Proxy option" where
  "normalize_proxy ext p =
     (case p of
        None \<Rightarrow> Inr None
      | Some (ProxyStr s) \<Rightarrow> map_sum id Some (Proxy_of_str ext s)
      | Some (ProxyURL u) \<Rightarrow> map_sum id Some (Proxy_of_URL ext u)
      | Some (ProxyDescriptor d) \<Rightarrow> Inr (Some d))"

text \<open>Lines 72 to 77: every engine timeout is switched off.\<close>

definition no_timeout :: ClientTimeout where
  "no_timeout = \<lparr>total = None, connect = None, sock_connect = None, sock_read = None\<rparr>"

text \<open>Lines 79 to 86: the dictionary literal \<^verbatim>\<open>connector_kwargs\<close>.\<close>

definition base_connector_kwargs :: "ssl_context \<Rightarrow> Limits \<Rightarrow> pyval pydict" where
  "base_connector_kwargs ctx l =
     [(''ssl'', PySSL ctx),
      (''limit'', optional_int (max_connections l)),
      (''enable_cleanup_closed'', PyBool True),
      (''force_close'', PyBool False),
      (''limit_per_host'', optional_int (max_keepalive_connections l)),
      (''ttl_dns_cache'', optional_float (keepalive_expiry l))]"

definition unsupported_proxy_message :: "string \<Rightarrow> string" where
  "unsupported_proxy_message s =
     ''AioHTTPTransport only supports HTTP proxies, not '' @ repr s @ ''.''"

text \<open>Lines 89 to 98: the proxy's scheme is checked, its URL and headers are added.\<close>

definition add_proxy_kwargs :: "Proxy option \<Rightarrow> pyval pydict \<Rightarrow> exception + pyval pydict" where
  "add_proxy_kwargs p kw =
     (case p of
        None \<Rightarrow> Inr kw
      | Some d \<Rightarrow>
          if scheme (proxy_url d) \<in> set [''http'', ''https''] then
            let kw1 = AList.update ''proxy'' (PyStr (url_str (proxy_url d))) kw
            in Inr (if proxy_headers d \<noteq> []
                    then AList.update ''proxy_headers''
                           (PyDict (py_dict (Headers_items (proxy_headers d)))) kw1
                    else kw1)
          else Inl (ValueError (unsupported_proxy_message (scheme (proxy_url d)))))"

definition http2_missing_message :: string where
  "http2_missing_message =
     ''Using HTTP/2 with aiohttp requires aiohttp_http2 to be installed. '' @
     ''Install it with `pip install aiohttp_http2`.''"

text \<open>
  \<^verbatim>\<open>aiohttp.TCPConnector(**connector_kwargs)\<close>, the call of line 111: the engine's
  constructor takes the keyword parameters listed here and no others, so the call raises
  for the first key of the dictionary that is not among them.
\<close>

definition TCPConnector_parameters :: "string list" where
  "TCPConnector_parameters =
     [''verify_ssl'', ''fingerprint'', ''use_dns_cache'', ''ttl_dns_cache'', ''family'',
      ''ssl_context'', ''ssl'', ''local_addr'', ''resolver'', ''keepalive_timeout'',
      ''force_close'', ''limit'', ''limit_per_host'', ''enable_cleanup_closed'', ''loop'',
      ''timeout_ceil_threshold'', ''happy_eyeballs_delay'', ''interleave'',
      ''socket_factory'', ''ssl_shutdown_timeout'']"

definition unexpected_keyword :: "string \<Rightarrow> string" where
  "unexpected_keyword k =
     ''TCPConnector.__init__() got an unexpected keyword argument '' @ repr k"

definition new_TCPConnector :: "pyval pydict \<Rightarrow> exception + connector" where
  "new_TCPConnector kw =
     (case filter (\<lambda>k. k \<notin> set TCPConnector_parameters) (map fst kw) of
        [] \<Rightarrow> Inr \<lparr>connector_class = TCPConnector, connector_kwargs = kw\<rparr>
      | k # _ \<Rightarrow> Inl (TypeError (unexpected_keyword k)))"

text \<open>
  Lines 101 to 111: the connector. The events say what was done to the engine: the import
  of the HTTP/2 extension is attempted in the \<^verbatim>\<open>http2\<close> branch only.
\<close>

definition create_connector ::
  "externals \<Rightarrow> bool \<Rightarrow> pyval pydict \<Rightarrow> event list \<times> (exception + connector)" where
  "create_connector ext h2 kw =
     (if h2 then
        (if aiohttp_http2_installed ext then
           (let c = \<lparr>connector_class = HTTP2ClientConnector, connector_kwargs = kw\<rparr>
            in ([ImportAttempted ''aiohttp_http2'', ConnectorCreated c], Inr c))
         else ([ImportAttempted ''aiohttp_http2''], Inl (ImportError http2_missing_message)))
      else
        (case new_TCPConnector kw of
           Inl e \<Rightarrow> ([], Inl e)
         | Inr c \<Rightarrow> ([ConnectorCreated c], Inr c)))"

text \<open>
  The constructor. It returns the engine operations it did and either the exception it
  raised or the new transport. \<open>kwargs\<close> are the keyword arguments that match no
  parameter (\<^verbatim>\<open>**kwargs\<close>); \<open>http1\<close>, \<open>socket_options\<close> and \<open>kwargs\<close> are never read.
\<close>

definition AioHTTPTransport_init ::
  "externals \<Rightarrow> init_args \<Rightarrow> pyval pydict \<Rightarrow> event list \<times> (exception + transport)" where
  "AioHTTPTransport_init ext a kwargs =
     (case normalize_proxy ext (proxy a) of
        Inl e \<Rightarrow> ([], Inl e)
      | Inr p \<Rightarrow>
          (let ssl_ctx = create_ssl_context ext (verify a) (cert a) (trust_env a);
               tmo = no_timeout;
               kw0 = base_connector_kwargs ssl_ctx (limits a)
           in case add_proxy_kwargs p kw0 of
                Inl e \<Rightarrow> ([], Inl e)
              | Inr kw \<Rightarrow>
                  (case create_connector ext (http2 a) kw of
                     (evs, Inl e) \<Rightarrow> (evs, Inl e)
                   | (evs, Inr c) \<Rightarrow>
                       (evs, Inr \<lparr>timeout = tmo, the_connector = c, the_session = None,
                                  the_session_kwargs =
                                    \<lparr>kw_connector = c, kw_timeout = tmo,
                                     kw_auto_decompress = False,
                                     kw_trust_env = trust_env a\<rparr>,
                                  trace = evs\<rparr>))))"

section \<open>The session\<close>

definition is_SessionCreated :: "event \<Rightarrow> bool" where
  "is_SessionCreated e = (case e of SessionCreated _ \<Rightarrow> True | _ \<Rightarrow> False)"

definition sessions_created :: "event list \<Rightarrow> nat" where
  "sessions_created tr = length (filter is_SessionCreated tr)"

text \<open>
  \<^verbatim>\<open>aiohttp.ClientSession(**self._session_kwargs)\<close>: a new session object; its identity
  \<open>sid\<close> is the number of sessions made before it.
\<close>

definition ClientSession :: "event list \<Rightarrow> session_kwargs \<Rightarrow> session" where
  "ClientSession tr kw = \<lparr>sid = sessions_created tr, created_with = kw\<rparr>"

text \<open>Lines 138 and 139, and lines 122 and 123: the session is made when there is none.\<close>

definition ensure_session :: "transport \<Rightarrow> transport" where
  "ensure_session t =
     (case the_session t of
        Some _ \<Rightarrow> t
      | None \<Rightarrow>
          (let s = ClientSession (trace t) (the_session_kwargs t)
           in t\<lparr>the_session := Some s, trace := trace t @ [SessionCreated s]\<rparr>))"

definition aenter :: "transport \<Rightarrow> transport" where
  "aenter t = ensure_session t"

text \<open>
  Lines 192 to 198: \<^verbatim>\<open>aclose\<close> closes and forgets the session when there is one, then
  closes the connector when it has a \<^verbatim>\<open>close\<close> attribute.
\<close>

definition aclose :: "externals \<Rightarrow> transport \<Rightarrow> transport" where
  "aclose ext t =
     (let t1 = (case the_session t of
                  Some s \<Rightarrow> t\<lparr>trace := trace t @ [SessionClosed s], the_session := None\<rparr>
                | None \<Rightarrow> t)
      in if hasattr_close ext (connector_class (the_connector t1))
         then t1\<lparr>trace := trace t1 @ [ConnectorClosed (the_connector t1)]\<rparr>
         else t1)"

definition aexit :: "externals \<Rightarrow> transport \<Rightarrow> transport" where
  "aexit ext t = aclose ext t"

section \<open>Handling a request (\<^verbatim>\<open>handle_async_request\<close>)\<close>

text \<open>Lines 142 to 144: the local variables \<^verbatim>\<open>url\<close>, \<^verbatim>\<open>headers\<close> and \<^verbatim>\<open>method\<close>.\<close>

record converted =
  conv_url :: string
  conv_headers :: "string pydict"
  conv_method :: string

definition convert_start :: "request \<Rightarrow> exception + converted" where
  "convert_start req =
     (let u = url_str (url req);
          hs = py_dict (Headers_items (headers req))
      in case req_method req of
           MethodStr m \<Rightarrow> Inr \<lparr>conv_url = u, conv_headers = hs, conv_method = m\<rparr>
         | MethodBytes b \<Rightarrow>
             (case decode_ascii b of
                Inl e \<Rightarrow> Inl e
              | Inr m \<Rightarrow> Inr \<lparr>conv_url = u, conv_headers = hs, conv_method = m\<rparr>))"

text \<open>
  Lines 147 to 152: for a body with \<^verbatim>\<open>__aiter__\<close> a stream reader is made, fed with the
  chunks and closed; making it is what raises.
\<close>

definition read_body :: "request \<Rightarrow> exception + StreamReader option" where
  "read_body req =
     (case stream req of
        None \<Rightarrow> Inr None
      | Some chunks \<Rightarrow>
          (case new_StreamReader of
             Inl e \<Rightarrow> Inl e
           | Inr r \<Rightarrow> Inr (Some (feed_eof (foldl feed_data r chunks)))))"

definition make_call :: "converted \<Rightarrow> StreamReader option \<Rightarrow> engine_call" where
  "make_call c d =
     \<lparr>call_method = conv_method c, call_url = conv_url c, call_headers = conv_headers c,
      call_data = d, allow_redirects = False\<rparr>"

text \<open>
  Lines 142 to 152 together: the arguments of the engine call, or the exception raised
  on the way to them.
\<close>

definition convert_request :: "request \<Rightarrow> exception + engine_call" where
  "convert_request req =
     (case convert_start req of
        Inl e \<Rightarrow> Inl e
      | Inr c \<Rightarrow>
          (case read_body req of
             Inl e \<Rightarrow> Inl e
           | Inr d \<Rightarrow> Inr (make_call c d)))"

text \<open>
  Lines 156 to 162: \<^verbatim>\<open>self._session.request(...)\<close> on the session the attribute holds at
  that moment; on \<^verbatim>\<open>None\<close> the attribute access raises.
\<close>

definition send_request :: "transport \<Rightarrow> engine_call \<Rightarrow> exception + transport" where
  "send_request t c =
     (case the_session t of
        None \<Rightarrow> Inl (AttributeError ''request'')
      | Some s \<Rightarrow> Inr (t\<lparr>trace := trace t @ [RequestSent s c]\<rparr>))"

text \<open>Lines 164 to 173: the engine's response becomes the caller's response.\<close>

fun encode_headers :: "(string \<times> string) list \<Rightarrow> exception + (pybytes \<times> pybytes) list" where
  "encode_headers [] = Inr []"
| "encode_headers ((k, v) # rest) =
     (case encode_ascii k of
        Inl e \<Rightarrow> Inl e
      | Inr kb \<Rightarrow>
          (case encode_ascii v of
             Inl e \<Rightarrow> Inl e
           | Inr vb \<Rightarrow>
               (case encode_headers rest of
                  Inl e \<Rightarrow> Inl e
                | Inr hs \<Rightarrow> Inr ((kb, vb) # hs))))"

definition convert_response :: "ClientResponse \<Rightarrow> exception + Response" where
  "convert_response r =
     (case encode_headers (raw_headers r) of
        Inl e \<Rightarrow> Inl e
      | Inr hs \<Rightarrow>
          Inr \<lparr>status_code = status r, response_headers = hs,
               response_stream = AsyncResponseStream (content r), extensions = []\<rparr>)"

text \<open>
  Lines 175 to 190: the two \<^verbatim>\<open>except\<close> clauses, in the source's order. An engine
  exception that is neither a \<^verbatim>\<open>ClientError\<close> nor a \<^verbatim>\<open>TimeoutError\<close> is not caught.
\<close>

definition map_exception :: "engine_exc \<Rightarrow> exception" where
  "map_exception exc =
     (if isinstance exc ClientError then
        (if isinstance exc ClientConnectorError then HTTPXError ConnectError (str_of exc) exc
         else if isinstance exc ClientOSError then HTTPXError NetworkError (str_of exc) exc
         else if isinstance exc ServerDisconnectedError
           then HTTPXError RemoteProtocolError (str_of exc) exc
         else if isinstance exc ClientResponseError then HTTPXError ProtocolError (str_of exc) exc
         else if isinstance exc ClientPayloadError then HTTPXError ReadError (str_of exc) exc
         else HTTPXError NetworkError (str_of exc) exc)
      else if isinstance exc TimeoutError then HTTPXError TimeoutException (str_of exc) exc
      else EngineException exc)"

text \<open>
  What follows the engine's answer to the call: an exception of the engine goes through
  the \<^verbatim>\<open>except\<close> clauses; a response is converted inside the \<^verbatim>\<open>async with\<close> block,
  which releases the engine's response when it is left. The exceptions of the conversion
  are of no class the \<^verbatim>\<open>except\<close> clauses name.
\<close>

definition receive ::
  "engine_exc + ClientResponse \<Rightarrow> transport \<Rightarrow> (exception + Response) \<times> transport" where
  "receive answer t =
     (case answer of
        Inl exc \<Rightarrow> (Inl (map_exception exc), t)
      | Inr r \<Rightarrow> (convert_response r, t\<lparr>trace := trace t @ [ResponseReleased]\<rparr>))"

text \<open>
  The whole call, given the engine's answer to the request it sends.
\<close>

definition handle_async_request ::
  "engine_exc + ClientResponse \<Rightarrow> request \<Rightarrow> transport \<Rightarrow> (exception + Response) \<times> transport"
  where
  "handle_async_request answer req t =
     (let t1 = ensure_session t
      in case convert_request req of
           Inl e \<Rightarrow> (Inl e, t1)
         | Inr c \<Rightarrow>
             (case send_request t1 c of
                Inl e \<Rightarrow> (Inl e, t1)
              | Inr t2 \<Rightarrow> receive answer t2))"

section \<open>The response body (\<^verbatim>\<open>AsyncResponseStream.__aiter__\<close>)\<close>

text \<open>
  Lines 41 to 49: chunks are read until an empty one; an engine exception of class
  \<^verbatim>\<open>ClientError\<close> or \<^verbatim>\<open>TimeoutError\<close> ends the iteration with a \<^verbatim>\<open>NetworkError\<close>.
  The result is the chunks yielded and the exception raised, if any.
\<close>

fun aiter_chunks :: "read_result list \<Rightarrow> pybytes list \<times> exception option" where
  "aiter_chunks [] = ([], None)"
| "aiter_chunks (ReadBytes (Bytes b) # rest) =
     (if b = [] then ([], None)
      else (case aiter_chunks rest of (cs, e) \<Rightarrow> (Bytes b # cs, e)))"
| "aiter_chunks (ReadRaises exc # rest) =
     ([], Some (if isinstance exc ClientError \<or> isinstance exc TimeoutError
                then HTTPXError NetworkError (str_of exc) exc
                else EngineException exc))"

definition aiter :: "AsyncResponseStream \<Rightarrow> pybytes list \<times> exception option" where
  "aiter s = (case s of AsyncResponseStream c \<Rightarrow> aiter_chunks c)"

section \<open>Concurrent calls\<close>

text \<open>
  \<^verbatim>\<open>handle_async_request\<close> is a coroutine: it runs without interruption from one
  \<^verbatim>\<open>await\<close> to the next, and only there can another call on the same transport run. Its
  suspension points are the \<^verbatim>\<open>async for\<close> over the request body (one per chunk and one
  at its end) and the \<^verbatim>\<open>async with\<close> around the engine call. A call in progress is a
  task, and one step of a task is the code between two suspension points.
\<close>

datatype task =
    NotStarted request
  | Feeding converted StreamReader "pybytes list"
  | AwaitingEngine
  | Finished "exception + Response"

text \<open>Lines 154 to 162, up to the suspension in \<^verbatim>\<open>async with\<close>.\<close>

definition dispatch :: "converted \<Rightarrow> StreamReader option \<Rightarrow> transport \<Rightarrow> task \<times> transport" where
  "dispatch c d t =
     (case send_request t (make_call c d) of
        Inl e \<Rightarrow> (Finished (Inl e), t)
      | Inr t2 \<Rightarrow> (AwaitingEngine, t2))"

text \<open>
  Lines 138 to 149: no \<^verbatim>\<open>await\<close> stands between the test of \<^verbatim>\<open>self._session\<close> and the
  assignment to it. Without a body the call goes on to the engine call at once; with
  one, the stream reader is made first.
\<close>

definition start_task :: "request \<Rightarrow> transport \<Rightarrow> task \<times> transport" where
  "start_task req t =
     (let t1 = ensure_session t
      in case convert_start req of
           Inl e \<Rightarrow> (Finished (Inl e), t1)
         | Inr c \<Rightarrow>
             (case stream req of
                None \<Rightarrow> dispatch c None t1
              | Some chunks \<Rightarrow>
                  (case new_StreamReader of
                     Inl e \<Rightarrow> (Finished (Inl e), t1)
                   | Inr r \<Rightarrow> (Feeding c r chunks, t1))))"

fun task_step ::
  "engine_exc + ClientResponse \<Rightarrow> task \<Rightarrow> transport \<Rightarrow> task \<times> transport" where
  "task_step a (NotStarted req) t = start_task req t"
| "task_step a (Feeding c d (chunk # rest)) t = (Feeding c (feed_data d chunk) rest, t)"
| "task_step a (Feeding c d []) t = dispatch c (Some (feed_eof d)) t"
| "task_step a AwaitingEngine t = (case receive a t of (r, t') \<Rightarrow> (Finished r, t'))"
| "task_step a (Finished r) t = (Finished r, t)"

text \<open>
  A schedule names, step by step, the task that runs next and the engine's answer it gets
  should it be waiting for one. Any interleaving of the calls is a schedule. The code
  after the engine's answer writes no attribute of the transport, so it is one step.
\<close>

fun run ::
  "(nat \<times> (engine_exc + ClientResponse)) list \<Rightarrow> task list \<times> transport \<Rightarrow> task list \<times> transport"
  where
  "run [] st = st"
| "run ((i, a) # sch) (ts, t) =
     (if i < length ts
      then (case task_step a (ts ! i) t of (tk, t') \<Rightarrow> run sch (ts[i := tk], t'))
      else run sch (ts, t))"

definition started :: "task \<Rightarrow> bool" where
  "started tk = (case tk of NotStarted _ \<Rightarrow> False | _ \<Rightarrow> True)"

definition is_Finished :: "task \<Rightarrow> bool" where
  "is_Finished tk = (case tk of Finished _ \<Rightarrow> True | _ \<Rightarrow> False)"

section \<open>Reading a trace\<close>

fun made_sessions :: "event list \<Rightarrow> session list" where
  "made_sessions [] = []"
| "made_sessions (SessionCreated s # evs) = s # made_sessions evs"
| "made_sessions (_ # evs) = made_sessions evs"

fun sent_calls :: "event list \<Rightarrow> (session \<times> engine_call) list" where
  "sent_calls [] = []"
| "sent_calls (RequestSent s c # evs) = (s, c) # sent_calls evs"
| "sent_calls (_ # evs) = sent_calls evs"

fun connector_closes :: "event list \<Rightarrow> nat" where
  "connector_closes [] = 0"
| "connector_closes (ConnectorClosed _ # evs) = Suc (connector_closes evs)"
| "connector_closes (_ # evs) = connector_closes evs"

text \<open>The events a transport \<open>t'\<close> has beyond those of an earlier state \<open>t\<close>.\<close>

definition new_events :: "transport \<Rightarrow> transport \<Rightarrow> event list" where
  "new_events t t' = drop (length (trace t)) (trace t')"

section \<open>The engine and a closed connector\<close>

text \<open>
  The connector of a transport is closed once its \<^verbatim>\<open>close\<close> was called, by \<^verbatim>\<open>aclose\<close>
  itself or by the close of a session made over it: the session arguments of line 114
  leave the session the owner of its connector, and the engine's session closes what it
  owns.
\<close>

definition closes_connector :: "event \<Rightarrow> bool" where
  "closes_connector e =
     (case e of ConnectorClosed _ \<Rightarrow> True | SessionClosed _ \<Rightarrow> True | _ \<Rightarrow> False)"

definition connector_closed :: "event list \<Rightarrow> bool" where
  "connector_closed tr = list_ex closes_connector tr"

text \<open>
  The engine's \<^verbatim>\<open>RuntimeError("Session is closed")\<close>, of none of the classes the
  transport names. The engine counts a session over a closed connector as closed and
  answers every request on it with this error.
\<close>

definition session_is_closed :: engine_exc where
  "session_is_closed = \<lparr>classes = {}, str_of = ''Session is closed''\<rparr>"

definition engine_may_answer :: "transport \<Rightarrow> engine_exc + ClientResponse \<Rightarrow> bool" where
  "engine_may_answer t a =
     (if connector_closed (trace t) then a = Inl session_is_closed else True)"

section \<open>One call in short\<close>

text \<open>
  The invariant of the interleaved calls, for a transport whose trace was \<open>tr0\<close> at the
  start: before any call has started there is no session and nothing has happened; once
  a call has started, the attribute holds the one session made since, and every request
  sent went to it.
\<close>

definition one_session :: "event list \<Rightarrow> task list \<times> transport \<Rightarrow> bool" where
  "one_session tr0 st =
     (case st of (ts, t) \<Rightarrow>
        \<exists>evs. trace t = tr0 @ evs \<and>
          (if list_ex started ts
           then \<exists>s. the_session t = Some s \<and> made_sessions evs = [s]
                  \<and> list_all (\<lambda>(s', c). s' = s) (sent_calls evs)
           else the_session t = None \<and> evs = []))"

text \<open>
  The events of one call after the session is there (the request, then the release of
  the engine's response), and what the call returns or raises.
\<close>

definition call_events :: "engine_exc + ClientResponse \<Rightarrow> request \<Rightarrow> session \<Rightarrow> event list" where
  "call_events a req s =
     (case convert_request req of
        Inl _ \<Rightarrow> []
      | Inr c \<Rightarrow> RequestSent s c #
                 (case a of Inl _ \<Rightarrow> [] | Inr _ \<Rightarrow> [ResponseReleased]))"

definition call_result :: "engine_exc + ClientResponse \<Rightarrow> request \<Rightarrow> exception + Response" where
  "call_result a req =
     (case convert_request req of
        Inl e \<Rightarrow> Inl e
      | Inr c \<Rightarrow> (case a of Inl exc \<Rightarrow> Inl (map_exception exc) | Inr r \<Rightarrow> convert_response r))"

section \<open>Example values\<close>

text \<open>
  A \<^verbatim>\<open>Proxy\<close> constructor that, like the calling library's, accepts the schemes
  \<^verbatim>\<open>http\<close>, \<^verbatim>\<open>https\<close>, \<^verbatim>\<open>socks5\<close> and \<^verbatim>\<open>socks5h\<close> only.
\<close>

definition example_Proxy :: "URL \<Rightarrow> exception + Proxy" where
  "example_Proxy u =
     (if scheme u \<in> set [''http'', ''https'', ''socks5'', ''socks5h'']
      then Inr \<lparr>proxy_url = u, proxy_headers = []\<rparr>
      else Inl (ValueError (''Unknown scheme for proxy URL '' @ url_str u)))"

definition example_externals :: externals where
  "example_externals =
     \<lparr>create_ssl_context = (\<lambda>_ _ _. SSLContext 0),
      Proxy_of_str =
        (\<lambda>s. example_Proxy \<lparr>scheme = takeWhile (\<lambda>c. c \<noteq> CHR '':'') s, url_str = s\<rparr>),
      Proxy_of_URL = example_Proxy,
      aiohttp_http2_installed = False,
      hasattr_close = (\<lambda>_. True)\<rparr>"

definition example_args :: init_args where
  "example_args =
     \<lparr>verify = VerifyBool True, cert = None, trust_env = True, http1 = True, http2 = False,
      limits = \<lparr>max_connections = Some 100, max_keepalive_connections = Some 20,
                keepalive_expiry = Some 5\<rparr>,
      proxy = None, socket_options = None\<rparr>"

definition example_connector :: connector where
  "example_connector =
     \<lparr>connector_class = TCPConnector,
      connector_kwargs =
        [(''ssl'', PySSL (SSLContext 0)), (''limit'', PyInt 100),
         (''enable_cleanup_closed'', PyBool True), (''force_close'', PyBool False),
         (''limit_per_host'', PyInt 20), (''ttl_dns_cache'', PyFloat 5)]\<rparr>"

definition example_session_kwargs :: session_kwargs where
  "example_session_kwargs =
     \<lparr>kw_connector = example_connector, kw_timeout = no_timeout,
      kw_auto_decompress = False, kw_trust_env = True\<rparr>"

definition example_transport :: transport where
  "example_transport =
     \<lparr>timeout = no_timeout, the_connector = example_connector, the_session = None,
      the_session_kwargs = example_session_kwargs, trace = [ConnectorCreated example_connector]\<rparr>"

text \<open>A request with a body stream that has \<^verbatim>\<open>__aiter__\<close>.\<close>

definition example_request :: request where
  "example_request =
     \<lparr>url = \<lparr>scheme = ''https'', url_str = ''https://httpbin.org/get''\<rparr>,
      headers = [(''Host'', ''httpbin.org''), (''Accept'', ''*/*'')],
      req_method = MethodStr ''GET'',
      stream = Some [Bytes []]\<rparr>"

text \<open>Requests whose body stream has no \<^verbatim>\<open>__aiter__\<close>.\<close>

definition example_duplicate_request :: request where
  "example_duplicate_request =
     \<lparr>url = \<lparr>scheme = ''https'', url_str = ''https://example.org/''\<rparr>,
      headers = [(''X-Test'', ''a''), (''X-Test'', ''b'')],
      req_method = MethodBytes (Bytes ''GET''),
      stream = None\<rparr>"

definition example_redirect :: ClientResponse where
  "example_redirect =
     \<lparr>status = 302, raw_headers = [(''Location'', ''https://example.org/next'')],
      content = []\<rparr>"

definition example_session :: session where
  "example_session = \<lparr>sid = 0, created_with = example_session_kwargs\<rparr>"

definition example_plain_request :: request where
  "example_plain_request =
     \<lparr>url = \<lparr>scheme = ''https'', url_str = ''https://example.org/''\<rparr>,
      headers = [(''User-Agent'', ''test-agent''), (''X-Test'', ''test-value'')],
      req_method = MethodStr ''GET'',
      stream = None\<rparr>"

text \<open>
  The \<^verbatim>\<open>isinstance\<close> answers of aiohttp's \<^verbatim>\<open>ServerTimeoutError\<close>, a subclass of both
  \<^verbatim>\<open>ClientError\<close> and \<^verbatim>\<open>asyncio.TimeoutError\<close>.
\<close>

definition example_server_timeout :: engine_exc where
  "example_server_timeout =
     \<lparr>classes = {ClientError, TimeoutError}, str_of = ''Timeout on reading data from socket''\<rparr>"

definition example_schedule :: "(nat \<times> (engine_exc + ClientResponse)) list" where
  "example_schedule =
     [(0, Inr example_redirect), (1, Inr example_redirect),
      (1, Inl example_server_timeout), (0, Inr example_redirect)]"

section \<open>Valid configurations\<close>

text \<open>
  The proxy of a valid configuration is absent, or is a descriptor (given or made
  without an exception) with the scheme \<^verbatim>\<open>http\<close> or \<^verbatim>\<open>https\<close>.
\<close>

definition valid_proxy :: "externals \<Rightarrow> init_args \<Rightarrow> bool" where
  "valid_proxy ext a =
     (case normalize_proxy ext (proxy a) of
        Inl _ \<Rightarrow> False
      | Inr None \<Rightarrow> True
      | Inr (Some d) \<Rightarrow> scheme (proxy_url d) \<in> set [''http'', ''https''])"

section \<open>Properties of the constructor\<close>

lemma example_init:
  "AioHTTPTransport_init example_externals example_args [] =
     ([ConnectorCreated example_connector], Inr example_transport)"
  by (simp add: AioHTTPTransport_init_def example_externals_def example_args_def
      normalize_proxy_def base_connector_kwargs_def add_proxy_kwargs_def create_connector_def
      new_TCPConnector_def TCPConnector_parameters_def
      optional_int_def optional_float_def example_connector_def example_transport_def
      example_session_kwargs_def Let_def)

lemma new_TCPConnector_kwargs:
  "new_TCPConnector kw = Inr c \<Longrightarrow> connector_kwargs c = kw"
  by (auto simp: new_TCPConnector_def split: list.splits)

lemma create_connector_kwargs:
  "create_connector ext h2 kw = (evs, Inr c) \<Longrightarrow> connector_kwargs c = kw"
  by (auto simp: create_connector_def Let_def new_TCPConnector_kwargs split: if_splits sum.splits)

lemma init_connector_kwargs:
  assumes "AioHTTPTransport_init ext a kw = (evs, Inr t)"
  shows "\<exists>p kws. normalize_proxy ext (proxy a) = Inr p
         \<and> add_proxy_kwargs p
            (base_connector_kwargs (create_ssl_context ext (verify a) (cert a) (trust_env a))
               (limits a)) = Inr kws
         \<and> connector_kwargs (the_connector t) = kws"
  using assms
  by (auto simp: AioHTTPTransport_init_def Let_def create_connector_kwargs
      split: sum.splits prod.splits)

lemma map_of_add_proxy_kwargs:
  assumes "add_proxy_kwargs p kw = Inr kws" and "k \<noteq> ''proxy''" and "k \<noteq> ''proxy_headers''"
  shows "map_of kws k = map_of kw k"
  using assms
  by (auto simp: add_proxy_kwargs_def Let_def AList.update_conv' split: option.splits if_splits)

text \<open>
  Claim C10: keyword arguments that match no parameter of the constructor are accepted
  and ignored: with them the constructor does what it does without them, and raises
  nothing on their account.
\<close>

theorem unknown_kwargs_ignored:
  "AioHTTPTransport_init ext a kwargs = AioHTTPTransport_init ext a []"
  by (simp add: AioHTTPTransport_init_def)

text \<open>
  Claim C4: the limits reach the connector as \<^verbatim>\<open>limit\<close> (\<^verbatim>\<open>max_connections\<close>),
  \<^verbatim>\<open>limit_per_host\<close> (\<^verbatim>\<open>max_keepalive_connections\<close>) and
  \<^verbatim>\<open>enable_cleanup_closed=True\<close>, an absent cap as \<^verbatim>\<open>None\<close> under its key. But
  \<^verbatim>\<open>keepalive_expiry\<close> is passed as \<^verbatim>\<open>ttl_dns_cache\<close>, the lifetime of the connector's
  DNS cache: the connector's parameter for the lifetime of an idle connection,
  \<^verbatim>\<open>keepalive_timeout\<close>, is never set, whatever the limits are.
\<close>

theorem keepalive_expiry_sets_ttl_dns_cache:
  assumes "AioHTTPTransport_init ext a kw = (evs, Inr t)"
  shows "map_of (connector_kwargs (the_connector t)) ''limit'' =
           Some (optional_int (max_connections (limits a)))
       \<and> map_of (connector_kwargs (the_connector t)) ''limit_per_host'' =
           Some (optional_int (max_keepalive_connections (limits a)))
       \<and> map_of (connector_kwargs (the_connector t)) ''enable_cleanup_closed'' = Some (PyBool True)
       \<and> map_of (connector_kwargs (the_connector t)) ''ttl_dns_cache'' =
           Some (optional_float (keepalive_expiry (limits a)))
       \<and> map_of (connector_kwargs (the_connector t)) ''keepalive_timeout'' = None"
proof -
  let ?base = "base_connector_kwargs
      (create_ssl_context ext (verify a) (cert a) (trust_env a)) (limits a)"
  from init_connector_kwargs [OF assms] obtain p kws where
    kws: "add_proxy_kwargs p ?base = Inr kws"
    and eq: "connector_kwargs (the_connector t) = kws" by blast
  have "map_of kws k = map_of ?base k" if "k \<noteq> ''proxy''" "k \<noteq> ''proxy_headers''" for k
    using map_of_add_proxy_kwargs [OF kws that] .
  then show ?thesis
    by (simp add: eq base_connector_kwargs_def)
qed

theorem keepalive_expiry_sets_ttl_dns_cache_witness:
  "map_of (connector_kwargs (the_connector example_transport)) ''ttl_dns_cache'' = Some (PyFloat 5)
   \<and> map_of (connector_kwargs (the_connector example_transport)) ''keepalive_timeout'' = None
   \<and> map_of (connector_kwargs (the_connector example_transport)) ''limit'' = Some (PyInt 100)"
  using keepalive_expiry_sets_ttl_dns_cache [OF example_init]
  by (simp add: example_args_def optional_int_def optional_float_def)

lemma repr_plain:
  assumes "\<forall>c\<in>set s. printable c \<and> c \<noteq> quote \<and> c \<noteq> backslash"
  shows "repr s = quote # s @ [quote]"
proof -
  have q: "quote \<notin> set s" using assms by auto
  have "c \<in> set s \<Longrightarrow> repr_char quote c = [c]" for c
    using assms by (auto simp: repr_char_def printable_def)
  then have "concat (map (repr_char quote) s) = s"
    by (induction s) auto
  with q show ?thesis by (simp add: repr_def)
qed

text \<open>
  A proxy descriptor whose scheme is neither \<^verbatim>\<open>http\<close> nor \<^verbatim>\<open>https\<close> is refused with a
  \<^verbatim>\<open>ValueError\<close> that ends with the \<^verbatim>\<open>repr\<close> of the scheme, before anything is done
  to the engine.
\<close>

lemma init_bad_scheme:
  assumes "normalize_proxy ext (proxy a) = Inr (Some d)"
    and "scheme (proxy_url d) \<noteq> ''http''" and "scheme (proxy_url d) \<noteq> ''https''"
  shows "AioHTTPTransport_init ext a kw =
           ([], Inl (ValueError (''AioHTTPTransport only supports HTTP proxies, not '' @
                       repr (scheme (proxy_url d)) @ ''.'')))"
  using assms
  by (simp add: AioHTTPTransport_init_def add_proxy_kwargs_def unsupported_proxy_message_def Let_def)

lemma proxy_keyword_rejected:
  assumes "scheme (proxy_url d) = ''http'' \<or> scheme (proxy_url d) = ''https''"
  shows "\<exists>kws. add_proxy_kwargs (Some d) (base_connector_kwargs ctx l) = Inr kws
     \<and> new_TCPConnector kws = Inl (TypeError (unexpected_keyword ''proxy''))"
  using assms
  by (auto simp: add_proxy_kwargs_def base_connector_kwargs_def Let_def new_TCPConnector_def
      TCPConnector_parameters_def)

text \<open>
  Claim C5: a proxy with the scheme \<^verbatim>\<open>http\<close> or \<^verbatim>\<open>https\<close> should make construction
  succeed, with the proxy's URL among the connector's arguments. It passes the scheme
  check, but its URL is put under the key \<^verbatim>\<open>proxy\<close> of the dictionary that line 111
  hands to \<^verbatim>\<open>aiohttp.TCPConnector\<close>, which has no such parameter: without \<^verbatim>\<open>http2\<close>
  construction raises a \<^verbatim>\<open>TypeError\<close> for every such proxy, and no connector or
  transport is made.
\<close>

theorem http_proxy_makes_TCPConnector_raise:
  assumes "normalize_proxy ext (proxy a) = Inr (Some d)"
    and "scheme (proxy_url d) = ''http'' \<or> scheme (proxy_url d) = ''https''"
    and "\<not> http2 a"
  shows "AioHTTPTransport_init ext a kw =
     ([], Inl (TypeError (''TCPConnector.__init__() got an unexpected keyword argument '' @
                 repr ''proxy'')))"
proof -
  from proxy_keyword_rejected [OF assms(2)] obtain kws where
    "add_proxy_kwargs (Some d) (base_connector_kwargs
        (create_ssl_context ext (verify a) (cert a) (trust_env a)) (limits a)) = Inr kws"
    "new_TCPConnector kws = Inl (TypeError (unexpected_keyword ''proxy''))" by blast
  with assms(1,3) show ?thesis
    by (simp add: AioHTTPTransport_init_def Let_def create_connector_def unexpected_keyword_def)
qed

theorem http_proxy_makes_TCPConnector_raise_witness:
  "normalize_proxy example_externals (Some (ProxyStr ''http://example.org'')) =
     Inr (Some \<lparr>proxy_url = \<lparr>scheme = ''http'', url_str = ''http://example.org''\<rparr>,
               proxy_headers = []\<rparr>)
   \<and> AioHTTPTransport_init example_externals
        (example_args\<lparr>proxy := Some (ProxyStr ''http://example.org'')\<rparr>) [] =
       ([], Inl (TypeError (''TCPConnector.__init__() got an unexpected keyword argument '' @
                   [CHR 0x27] @ ''proxy'' @ [CHR 0x27])))"
proof -
  let ?a = "example_args\<lparr>proxy := Some (ProxyStr ''http://example.org'')\<rparr>"
  have n: "normalize_proxy example_externals (proxy ?a) =
     Inr (Some \<lparr>proxy_url = \<lparr>scheme = ''http'', url_str = ''http://example.org''\<rparr>,
               proxy_headers = []\<rparr>)"
    by (simp add: normalize_proxy_def example_externals_def example_Proxy_def example_args_def)
  have r: "repr ''proxy'' = [CHR 0x27] @ ''proxy'' @ [CHR 0x27]"
    by (simp add: repr_def repr_char_def quote_def dquote_def backslash_def printable_def Let_def)
  from http_proxy_makes_TCPConnector_raise [OF n, of "[]"] n r
  show ?thesis by (simp add: example_args_def)
qed

lemma made_sessions_init: "made_sessions (fst (AioHTTPTransport_init ext a kw)) = []"
  by (auto simp: AioHTTPTransport_init_def Let_def create_connector_def
      split: sum.splits prod.splits if_splits)

lemma init_no_session:
  "AioHTTPTransport_init ext a kw = (evs, Inr t) \<Longrightarrow> the_session t = None"
  by (auto simp: AioHTTPTransport_init_def Let_def split: sum.splits prod.splits)

lemma valid_proxy_kwargs:
  "valid_proxy ext a \<Longrightarrow>
     \<exists>p kws. normalize_proxy ext (proxy a) = Inr p \<and> add_proxy_kwargs p kw = Inr kws"
  by (auto simp: valid_proxy_def add_proxy_kwargs_def Let_def split: option.splits sum.splits)

lemma normalize_proxy_installed:
  "normalize_proxy (ext\<lparr>aiohttp_http2_installed := b\<rparr>) p = normalize_proxy ext p"
  by (simp add: normalize_proxy_def split: option.splits proxy_arg.splits)

lemma create_connector_http1:
  "create_connector (ext\<lparr>aiohttp_http2_installed := b\<rparr>) False kw = create_connector ext False kw"
  by (simp add: create_connector_def)

text \<open>
  Claim C6: without \<^verbatim>\<open>http2\<close> the constructor never tries to import the HTTP/2
  extension, and does the same whether it is installed or not. With \<^verbatim>\<open>http2\<close> and a
  valid proxy setting it tries; when the extension is missing, construction fails with an
  \<^verbatim>\<open>ImportError\<close> that says how to install it. No transport then exists, and the
  constructor never makes a session.
\<close>

theorem http2_extension_only_for_http2:
  "(\<not> http2 a \<longrightarrow>
      ImportAttempted ''aiohttp_http2'' \<notin> set (fst (AioHTTPTransport_init ext a kw))
      \<and> AioHTTPTransport_init (ext\<lparr>aiohttp_http2_installed := b\<rparr>) a kw =
          AioHTTPTransport_init ext a kw)
   \<and> (http2 a \<and> valid_proxy ext a \<longrightarrow>
        ImportAttempted ''aiohttp_http2'' \<in> set (fst (AioHTTPTransport_init ext a kw)))
   \<and> (http2 a \<and> valid_proxy ext a \<and> \<not> aiohttp_http2_installed ext \<longrightarrow>
        AioHTTPTransport_init ext a kw =
          ([ImportAttempted ''aiohttp_http2''],
           Inl (ImportError (''Using HTTP/2 with aiohttp requires aiohttp_http2 to be installed. '' @
                             ''Install it with `pip install aiohttp_http2`.''))))
   \<and> made_sessions (fst (AioHTTPTransport_init ext a kw)) = []"
proof (intro conjI impI)
  assume "\<not> http2 a"
  then show "ImportAttempted ''aiohttp_http2'' \<notin> set (fst (AioHTTPTransport_init ext a kw))"
    by (auto simp: AioHTTPTransport_init_def Let_def create_connector_def split: sum.splits)
next
  assume "\<not> http2 a"
  then show "AioHTTPTransport_init (ext\<lparr>aiohttp_http2_installed := b\<rparr>) a kw =
          AioHTTPTransport_init ext a kw"
    by (simp add: AioHTTPTransport_init_def normalize_proxy_installed create_connector_http1
        cong: sum.case_cong)
next
  assume h: "http2 a \<and> valid_proxy ext a"
  then obtain p kws where "normalize_proxy ext (proxy a) = Inr p"
    "add_proxy_kwargs p
      (base_connector_kwargs (create_ssl_context ext (verify a) (cert a) (trust_env a)) (limits a)) = Inr kws"
    using valid_proxy_kwargs by blast
  with h show "ImportAttempted ''aiohttp_http2'' \<in> set (fst (AioHTTPTransport_init ext a kw))"
    by (simp add: AioHTTPTransport_init_def Let_def create_connector_def)
next
  assume h: "http2 a \<and> valid_proxy ext a \<and> \<not> aiohttp_http2_installed ext"
  then obtain p kws where "normalize_proxy ext (proxy a) = Inr p"
    "add_proxy_kwargs p
      (base_connector_kwargs (create_ssl_context ext (verify a) (cert a) (trust_env a)) (limits a)) = Inr kws"
    using valid_proxy_kwargs by blast
  with h show "AioHTTPTransport_init ext a kw =
          ([ImportAttempted ''aiohttp_http2''],
           Inl (ImportError (''Using HTTP/2 with aiohttp requires aiohttp_http2 to be installed. '' @
                             ''Install it with `pip install aiohttp_http2`.'')))"
    by (simp add: AioHTTPTransport_init_def Let_def create_connector_def http2_missing_message_def)
next
  show "made_sessions (fst (AioHTTPTransport_init ext a kw)) = []"
    by (rule made_sessions_init)
qed

theorem http2_extension_only_for_http2_witness:
  "ImportAttempted ''aiohttp_http2'' \<notin> set (fst (AioHTTPTransport_init example_externals example_args []))
   \<and> AioHTTPTransport_init (example_externals\<lparr>aiohttp_http2_installed := True\<rparr>) example_args [] =
       ([ConnectorCreated example_connector], Inr example_transport)
   \<and> valid_proxy example_externals (example_args\<lparr>http2 := True\<rparr>)
   \<and> AioHTTPTransport_init example_externals (example_args\<lparr>http2 := True\<rparr>) [] =
       ([ImportAttempted ''aiohttp_http2''], Inl (ImportError http2_missing_message))"
proof -
  have v: "valid_proxy example_externals (example_args\<lparr>http2 := True\<rparr>)"
    by (simp add: valid_proxy_def normalize_proxy_def example_args_def)
  show ?thesis
    using http2_extension_only_for_http2 [of example_args example_externals "[]" True]
      http2_extension_only_for_http2 [of "example_args\<lparr>http2 := True\<rparr>" example_externals "[]" True]
      v example_init
    by (simp add: example_args_def example_externals_def http2_missing_message_def)
qed

section \<open>Properties of closing\<close>

lemma connector_closes_append:
  "connector_closes (xs @ ys) = connector_closes xs + connector_closes ys"
  by (induction xs rule: connector_closes.induct) simp_all

lemma aclose_connector: "the_connector (aclose ext t) = the_connector t"
  by (simp add: aclose_def Let_def split: option.splits)

lemma aclose_closes_once:
  assumes "hasattr_close ext (connector_class (the_connector t))"
  shows "connector_closes (trace (aclose ext t)) = Suc (connector_closes (trace t))"
  using assms by (simp add: aclose_def Let_def connector_closes_append split: option.splits)

text \<open>
  Claim C3: two calls of \<^verbatim>\<open>aclose\<close> in sequence should close the connector once. They
  close it twice: only the session is forgotten after its close, the connector's
  \<^verbatim>\<open>close\<close> is called by every \<^verbatim>\<open>aclose\<close> of a transport whose connector has one.
\<close>

theorem second_aclose_closes_connector_again:
  assumes "hasattr_close ext (connector_class (the_connector t))"
  shows "connector_closes (trace (aclose ext (aclose ext t))) = connector_closes (trace t) + 2"
  using assms by (simp add: aclose_closes_once aclose_connector)

theorem second_aclose_closes_connector_again_witness:
  "hasattr_close example_externals (connector_class (the_connector example_transport))
   \<and> connector_closes (trace example_transport) = 0
   \<and> connector_closes
        (trace (aclose example_externals (aclose example_externals example_transport))) = 2"
  using second_aclose_closes_connector_again [of example_externals example_transport]
  by (simp add: example_externals_def example_transport_def)

section \<open>Properties of dictionaries\<close>

lemma update_fresh: "k \<notin> fst ` set al \<Longrightarrow> AList.update k v al = al @ [(k, v)]"
  by (induction al) auto

lemma py_dict_of_distinct_aux:
  "distinct (map fst (d @ xs)) \<Longrightarrow> foldl (\<lambda>d (k, v). AList.update k v d) d xs = d @ xs"
proof (induction xs arbitrary: d)
  case Nil
  show ?case by simp
next
  case (Cons x xs)
  obtain k v where x: "x = (k, v)" by (cases x)
  from Cons.prems have fresh: "k \<notin> fst ` set d" by (auto simp: x)
  from Cons.prems have "distinct (map fst ((d @ [(k, v)]) @ xs))" by (simp add: x)
  from Cons.IH [OF this] show ?case by (simp add: x update_fresh [OF fresh])
qed

lemma py_dict_of_distinct: "distinct (map fst xs) \<Longrightarrow> py_dict xs = xs"
  using py_dict_of_distinct_aux [of "[]" xs] by (simp add: py_dict_def)

section \<open>Properties of \<^verbatim>\<open>Headers.items()\<close>\<close>

lemma joined_snoc: "joined (vs @ [v]) = (if vs = [] then v else joined vs @ '', '' @ v)"
  by (induction vs rule: joined.induct) auto

lemma Headers_items_snoc: "Headers_items (raw @ [kv]) = add_item (Headers_items raw) kv"
  by (simp add: Headers_items_def)

lemma Headers_items_distinct: "distinct (map fst (Headers_items raw))"
proof (induction raw rule: rev_induct)
  case Nil
  show ?case by (simp add: Headers_items_def)
next
  case (snoc kv raw)
  then show ?case
    by (simp add: Headers_items_snoc add_item_def AList.distinct_update split: prod.splits)
qed

lemma values_of_snoc:
  "values_of n (raw @ [(k, v)]) = values_of n raw @ (if lower_ascii k = n then [v] else [])"
  by (simp add: values_of_def)

lemma Headers_items_map_of:
  "map_of (Headers_items raw) n =
     (if values_of n raw = [] then None else Some (joined (values_of n raw)))"
proof (induction raw rule: rev_induct)
  case Nil
  show ?case by (simp add: Headers_items_def values_of_def)
next
  case (snoc kv raw)
  obtain k v where kv: "kv = (k, v)" by (cases kv)
  show ?case
  proof (cases "lower_ascii k = n")
    case True
    with snoc show ?thesis
      by (simp add: Headers_items_snoc add_item_def kv AList.update_conv' values_of_snoc
          joined_snoc)
  next
    case False
    with snoc show ?thesis
      by (simp add: Headers_items_snoc add_item_def kv AList.update_conv' values_of_snoc)
  qed
qed

lemma Headers_items_of_distinct:
  assumes "distinct (map (\<lambda>kv. lower_ascii (fst kv)) raw)"
  shows "Headers_items raw = map (\<lambda>(k, v). (lower_ascii k, v)) raw"
  using assms
proof (induction raw rule: rev_induct)
  case Nil
  show ?case by (simp add: Headers_items_def)
next
  case (snoc kv raw)
  obtain k v where kv: "kv = (k, v)" by (cases kv)
  from snoc.prems have d: "distinct (map (\<lambda>kv. lower_ascii (fst kv)) raw)"
    and fresh: "lower_ascii k \<notin> (\<lambda>kv. lower_ascii (fst kv)) ` set raw" by (auto simp: kv)
  from snoc.IH [OF d] have eq: "Headers_items raw = map (\<lambda>(k, v). (lower_ascii k, v)) raw" .
  from fresh have f: "lower_ascii k \<notin> fst ` set (Headers_items raw)"
    by (force simp: eq)
  then have "map_of (Headers_items raw) (lower_ascii k) = None"
    by (simp add: map_of_eq_None_iff)
  with f show ?case
    by (simp add: Headers_items_snoc add_item_def kv update_fresh eq)
qed

lemma py_dict_Headers_items: "py_dict (Headers_items raw) = Headers_items raw"
  by (simp add: py_dict_of_distinct Headers_items_distinct)

section \<open>Properties of a call\<close>

lemma sent_calls_append: "sent_calls (xs @ ys) = sent_calls xs @ sent_calls ys"
  by (induction xs rule: sent_calls.induct) simp_all

lemma made_sessions_append: "made_sessions (xs @ ys) = made_sessions xs @ made_sessions ys"
  by (induction xs rule: made_sessions.induct) simp_all

lemma handle_with_session:
  assumes "the_session t = Some s"
  shows "handle_async_request a req t = (call_result a req, t\<lparr>trace := trace t @ call_events a req s\<rparr>)"
  using assms
  by (auto simp: handle_async_request_def ensure_session_def Let_def call_result_def
      call_events_def send_request_def receive_def split: sum.splits)

lemma handle_without_session:
  assumes "the_session t = None"
  shows "handle_async_request a req t =
     (call_result a req,
      t\<lparr>the_session := Some (ClientSession (trace t) (the_session_kwargs t)),
        trace := trace t @ SessionCreated (ClientSession (trace t) (the_session_kwargs t)) #
                 call_events a req (ClientSession (trace t) (the_session_kwargs t))\<rparr>)"
  using assms
  by (auto simp: handle_async_request_def ensure_session_def Let_def call_result_def
      call_events_def send_request_def receive_def split: sum.splits)

lemma handle_result: "fst (handle_async_request a req t) = call_result a req"
  by (cases "the_session t") (simp_all add: handle_without_session handle_with_session)

lemma sent_calls_call_events:
  "map snd (sent_calls (call_events a req s)) =
     (case convert_request req of Inl _ \<Rightarrow> [] | Inr c \<Rightarrow> [c])"
  by (simp add: call_events_def split: sum.splits)

lemma handle_sent_calls:
  "map snd (sent_calls (new_events t (snd (handle_async_request a req t)))) =
     (case convert_request req of Inl _ \<Rightarrow> [] | Inr c \<Rightarrow> [c])"
  by (cases "the_session t")
    (simp_all add: handle_without_session handle_with_session new_events_def sent_calls_call_events)

lemma convert_request_headers:
  "convert_request req = Inr c \<Longrightarrow> call_headers c = Headers_items (headers req)"
  by (auto simp: convert_request_def convert_start_def make_call_def Let_def py_dict_Headers_items
      split: method_arg.splits sum.splits)

lemma lower_ascii_examples:
  "lower_ascii ''User-Agent'' = ''user-agent''"
  "lower_ascii ''X-Test'' = ''x-test''"
  by code_simp+

lemma example_plain_converted:
  "convert_request example_plain_request =
     Inr \<lparr>call_method = ''GET'', call_url = ''https://example.org/'',
          call_headers = [(''user-agent'', ''test-agent''), (''x-test'', ''test-value'')],
          call_data = None, allow_redirects = False\<rparr>"
  by (simp add: convert_request_def convert_start_def read_body_def make_call_def
      example_plain_request_def py_dict_def Headers_items_def add_item_def
      lower_ascii_examples Let_def)

lemma example_duplicate_converted:
  "convert_request example_duplicate_request =
     Inr \<lparr>call_method = ''GET'', call_url = ''https://example.org/'',
          call_headers = [(''x-test'', ''a, b'')],
          call_data = None, allow_redirects = False\<rparr>"
  by (simp add: convert_request_def convert_start_def read_body_def make_call_def
      example_duplicate_request_def py_dict_def Headers_items_def add_item_def
      lower_ascii_examples decode_ascii_def is_ascii_def Let_def)

text \<open>
  Claim C2, as stated, fails: of the two pairs \<^verbatim>\<open>("X-Test", "a")\<close> and
  \<^verbatim>\<open>("X-Test", "b")\<close> of a request neither reaches the engine; the engine call gets the
  one pair \<^verbatim>\<open>("x-test", "a, b")\<close>.
\<close>

theorem duplicate_header_pairs_merged:
  "map (call_headers \<circ> snd)
     (sent_calls (new_events example_transport
        (snd (handle_async_request (Inr example_redirect) example_duplicate_request
                example_transport)))) =
   [[(''x-test'', ''a, b'')]]
   \<and> headers example_duplicate_request = [(''X-Test'', ''a''), (''X-Test'', ''b'')]"
proof -
  have "map (call_headers \<circ> snd)
     (sent_calls (new_events example_transport
        (snd (handle_async_request (Inr example_redirect) example_duplicate_request
                example_transport)))) =
     map call_headers (map snd (sent_calls (new_events example_transport
        (snd (handle_async_request (Inr example_redirect) example_duplicate_request
                example_transport)))))"
    by simp
  also have "\<dots> = [[(''x-test'', ''a, b'')]]"
    unfolding handle_sent_calls by (simp add: example_duplicate_converted)
  finally show ?thesis by (simp add: example_duplicate_request_def)
qed

text \<open>
  Claim C2, amended: when the request is converted and the engine call sent, the call
  gets the headers as the dictionary of \<^verbatim>\<open>request.headers.items()\<close>: one entry for every
  header name, in lower case, whose value is the values given to that name (whatever
  its case), in order, joined with \<^verbatim>\<open>", "\<close>. When no name occurs twice, every pair is
  forwarded in order with its name in lower case and its value unchanged.
\<close>

theorem headers_forwarded_merged_by_name:
  assumes "convert_request req = Inr c"
  shows "map snd (sent_calls (new_events t (snd (handle_async_request a req t)))) = [c]
   \<and> call_headers c = Headers_items (headers req)
   \<and> distinct (map fst (call_headers c))
   \<and> (\<forall>n. map_of (call_headers c) n =
           (if values_of n (headers req) = [] then None
            else Some (joined (values_of n (headers req)))))
   \<and> (distinct (map (\<lambda>kv. lower_ascii (fst kv)) (headers req)) \<longrightarrow>
        call_headers c = map (\<lambda>(k, v). (lower_ascii k, v)) (headers req))"
proof -
  have h: "call_headers c = Headers_items (headers req)"
    using assms by (rule convert_request_headers)
  have s: "map snd (sent_calls (new_events t (snd (handle_async_request a req t)))) = [c]"
    by (simp add: handle_sent_calls assms)
  show ?thesis
    by (simp add: s h Headers_items_distinct Headers_items_map_of Headers_items_of_distinct)
qed

theorem headers_forwarded_merged_by_name_witness:
  "distinct (map (\<lambda>kv. lower_ascii (fst kv)) (headers example_plain_request))
   \<and> map (call_headers \<circ> snd)
       (sent_calls (new_events example_transport
          (snd (handle_async_request (Inr example_redirect) example_plain_request example_transport)))) =
     [[(''user-agent'', ''test-agent''), (''x-test'', ''test-value'')]]"
proof -
  have d: "distinct (map (\<lambda>kv. lower_ascii (fst kv)) (headers example_plain_request))"
    by (simp add: example_plain_request_def lower_ascii_examples)
  have "map (call_headers \<circ> snd)
       (sent_calls (new_events example_transport
          (snd (handle_async_request (Inr example_redirect) example_plain_request example_transport)))) =
     map call_headers (map snd (sent_calls (new_events example_transport
          (snd (handle_async_request (Inr example_redirect) example_plain_request example_transport)))))"
    by simp
  with headers_forwarded_merged_by_name [OF example_plain_converted,
      of example_transport "Inr example_redirect"] d
  show ?thesis by simp
qed

section \<open>Properties of the error mapping\<close>

lemma map_exception_table:
  assumes "isinstance exc ClientError"
  shows "map_exception exc =
     HTTPXError
       (if isinstance exc ClientConnectorError then ConnectError
        else if isinstance exc ClientOSError then NetworkError
        else if isinstance exc ServerDisconnectedError then RemoteProtocolError
        else if isinstance exc ClientResponseError then ProtocolError
        else if isinstance exc ClientPayloadError then ReadError
        else NetworkError)
       (str_of exc) exc"
  using assms by (simp add: map_exception_def)

lemma map_exception_timeout:
  assumes "\<not> isinstance exc ClientError" and "isinstance exc TimeoutError"
  shows "map_exception exc = HTTPXError TimeoutException (str_of exc) exc"
  using assms by (simp add: map_exception_def)

lemma map_exception_other:
  assumes "\<not> isinstance exc ClientError" and "\<not> isinstance exc TimeoutError"
  shows "map_exception exc = EngineException exc"
  using assms by (simp add: map_exception_def)

lemma aiter_chunks_error:
  assumes "aiter_chunks rs = (cs, Some e)"
  shows "\<exists>exc. ReadRaises exc \<in> set rs \<and>
     e = (if isinstance exc ClientError \<or> isinstance exc TimeoutError
          then HTTPXError NetworkError (str_of exc) exc else EngineException exc)"
  using assms
proof (induction rs arbitrary: cs rule: aiter_chunks.induct)
  case 1
  then show ?case by simp
next
  case (2 b rest)
  then show ?case by (auto split: if_splits prod.splits)
next
  case (3 exc rest)
  then show ?case by auto
qed

text \<open>
  Claim C7: every engine exception of class \<^verbatim>\<open>ClientError\<close> or \<^verbatim>\<open>TimeoutError\<close> is
  raised again as one error of the calling library, with the engine exception as its
  cause, and the classes of \<^verbatim>\<open>ClientError\<close> are tested from the more special to the
  fallback, as the lemmas above say. But the clause for \<^verbatim>\<open>TimeoutError\<close> stands after the
  clause for \<^verbatim>\<open>ClientError\<close> with its fallback: a timeout of the engine that is also a
  \<^verbatim>\<open>ClientError\<close> (and of none of the five special classes) becomes a
  \<^verbatim>\<open>NetworkError\<close>, not a \<^verbatim>\<open>TimeoutException\<close>.
\<close>

theorem timeout_of_client_error_class_is_NetworkError:
  assumes "isinstance exc ClientError" and "isinstance exc TimeoutError"
    and "\<not> isinstance exc ClientConnectorError" and "\<not> isinstance exc ClientOSError"
    and "\<not> isinstance exc ServerDisconnectedError" and "\<not> isinstance exc ClientResponseError"
    and "\<not> isinstance exc ClientPayloadError"
    and "convert_request req = Inr c"
  shows "fst (handle_async_request (Inl exc) req t) = Inl (HTTPXError NetworkError (str_of exc) exc)"
  using assms by (simp add: handle_result call_result_def map_exception_def)

theorem timeout_of_client_error_class_is_NetworkError_witness:
  "isinstance example_server_timeout TimeoutError
   \<and> fst (handle_async_request (Inl example_server_timeout) example_plain_request example_transport) =
       Inl (HTTPXError NetworkError ''Timeout on reading data from socket'' example_server_timeout)"
proof -
  have i: "isinstance example_server_timeout ClientError"
      "isinstance example_server_timeout TimeoutError"
      "\<not> isinstance example_server_timeout ClientConnectorError"
      "\<not> isinstance example_server_timeout ClientOSError"
      "\<not> isinstance example_server_timeout ServerDisconnectedError"
      "\<not> isinstance example_server_timeout ClientResponseError"
      "\<not> isinstance example_server_timeout ClientPayloadError"
    by (simp_all add: isinstance_def example_server_timeout_def)
  from timeout_of_client_error_class_is_NetworkError [OF i example_plain_converted, of example_transport] i(2)
  show ?thesis by (simp add: example_server_timeout_def)
qed

section \<open>A request after closing\<close>

lemma aclose_session: "the_session (aclose ext t) = None"
  by (simp add: aclose_def Let_def split: option.splits)

lemma aclose_session_kwargs: "the_session_kwargs (aclose ext t) = the_session_kwargs t"
  by (simp add: aclose_def Let_def split: option.splits)

lemma aclose_has_closed_connector:
  assumes "hasattr_close ext (connector_class (the_connector t))"
  shows "ConnectorClosed (the_connector t) \<in> set (trace (aclose ext t))"
  using assms by (simp add: aclose_def Let_def split: option.splits)

lemma aclose_connector_closed:
  assumes "hasattr_close ext (connector_class (the_connector t)) \<or> the_session t \<noteq> None"
  shows "connector_closed (trace (aclose ext t))"
  using assms
  by (auto simp: aclose_def Let_def connector_closed_def closes_connector_def split: option.splits)

lemma map_exception_session_is_closed:
  "map_exception session_is_closed = EngineException session_is_closed"
  by (simp add: map_exception_def isinstance_def session_is_closed_def)

text \<open>
  Claim C8: a request after \<^verbatim>\<open>aclose\<close> should go on as on a transport that was just
  constructed. The transport does make a new session and sends the engine call on it,
  but it makes the session from the same session arguments, over the connector that
  \<^verbatim>\<open>aclose\<close> has closed: the connector is made once, in the constructor. The engine
  answers a request on such a session with its \<^verbatim>\<open>RuntimeError\<close>, which no clause of
  the transport catches, so the request fails where the same request on a new transport
  gets its response.
\<close>

theorem request_after_close_raises:
  assumes "hasattr_close ext (connector_class (the_connector t))"
    and "convert_request req = Inr c"
    and "engine_may_answer (aclose ext t) a"
  shows "the_session (aclose ext t) = None
     \<and> (\<exists>s. the_session (snd (handle_async_request a req (aclose ext t))) = Some s
            \<and> created_with s = the_session_kwargs t
            \<and> sent_calls (new_events (aclose ext t)
                 (snd (handle_async_request a req (aclose ext t)))) = [(s, c)])
     \<and> fst (handle_async_request a req (aclose ext t)) = Inl (EngineException session_is_closed)"
proof -
  let ?tc = "aclose ext t"
  have n: "the_session ?tc = None" by (rule aclose_session)
  from assms(1) have "connector_closed (trace ?tc)" by (simp add: aclose_connector_closed)
  with assms(3) have a: "a = Inl session_is_closed" by (simp add: engine_may_answer_def)
  have res: "fst (handle_async_request a req ?tc) = Inl (EngineException session_is_closed)"
    by (simp add: handle_result call_result_def assms(2) a map_exception_session_is_closed)
  have sess: "\<exists>s. the_session (snd (handle_async_request a req ?tc)) = Some s
            \<and> created_with s = the_session_kwargs t
            \<and> sent_calls (new_events ?tc (snd (handle_async_request a req ?tc))) = [(s, c)]"
    by (simp add: handle_without_session [OF n] new_events_def ClientSession_def
        aclose_session_kwargs call_events_def assms(2) a)
  from n res sess show ?thesis by blast
qed

theorem request_after_close_raises_witness:
  "engine_may_answer example_transport (Inr example_redirect)
   \<and> fst (handle_async_request (Inr example_redirect) example_plain_request example_transport) =
       Inr \<lparr>status_code = 302,
            response_headers = [(Bytes ''Location'', Bytes ''https://example.org/next'')],
            response_stream = AsyncResponseStream [], extensions = []\<rparr>
   \<and> \<not> engine_may_answer (aclose example_externals example_transport) (Inr example_redirect)
   \<and> engine_may_answer (aclose example_externals example_transport) (Inl session_is_closed)
   \<and> fst (handle_async_request (Inl session_is_closed) example_plain_request
        (aclose example_externals example_transport)) =
       Inl (EngineException session_is_closed)"
proof -
  have h: "hasattr_close example_externals (connector_class (the_connector example_transport))"
    by (simp add: example_externals_def)
  have c: "connector_closed (trace (aclose example_externals example_transport))"
    using h by (simp add: aclose_connector_closed)
  have o: "\<not> connector_closed (trace example_transport)"
    by (simp add: example_transport_def connector_closed_def closes_connector_def)
  have m: "engine_may_answer (aclose example_externals example_transport) (Inl session_is_closed)"
    by (simp add: engine_may_answer_def)
  have r: "fst (handle_async_request (Inr example_redirect) example_plain_request example_transport) =
       Inr \<lparr>status_code = 302,
            response_headers = [(Bytes ''Location'', Bytes ''https://example.org/next'')],
            response_stream = AsyncResponseStream [], extensions = []\<rparr>"
    by (simp add: handle_result call_result_def example_plain_converted convert_response_def
        example_redirect_def encode_ascii_def is_ascii_def)
  from request_after_close_raises [OF h example_plain_converted m] c o m r
  show ?thesis by (simp add: engine_may_answer_def)
qed

section \<open>Redirects, the status code and the request body\<close>

lemma encode_headers_ascii:
  assumes "\<forall>(k, v)\<in>set hs. list_all is_ascii k \<and> list_all is_ascii v"
  shows "encode_headers hs = Inr (map (\<lambda>(k, v). (Bytes k, Bytes v)) hs)"
  using assms by (induction hs) (auto simp: encode_ascii_def)

lemma convert_response_status:
  "convert_response r = Inr resp \<Longrightarrow> status_code resp = status r"
  by (auto simp: convert_response_def split: sum.splits)

lemma convert_request_no_redirects:
  "convert_request req = Inr c \<Longrightarrow> \<not> allow_redirects c"
  by (auto simp: convert_request_def make_call_def split: sum.splits)

lemma sent_calls_no_redirects:
  assumes "c \<in> set (sent_calls (new_events t (snd (handle_async_request a req t))))"
  shows "\<not> allow_redirects (snd c)"
proof -
  from assms have
    "snd c \<in> set (map snd (sent_calls (new_events t (snd (handle_async_request a req t)))))"
    by simp
  then show ?thesis
    unfolding handle_sent_calls by (auto simp: convert_request_no_redirects split: sum.splits)
qed

lemma returned_status_is_engine_status:
  assumes "fst (handle_async_request (Inr r) req t) = Inr resp"
  shows "status_code resp = status r"
  using assms
  by (auto simp: handle_result call_result_def convert_response_status split: sum.splits)

lemma response_passed_through:
  assumes "convert_request req = Inr c"
    and "\<forall>(k, v)\<in>set (raw_headers r). list_all is_ascii k \<and> list_all is_ascii v"
  shows "fst (handle_async_request (Inr r) req t) =
        Inr \<lparr>status_code = status r,
             response_headers = map (\<lambda>(k, v). (Bytes k, Bytes v)) (raw_headers r),
             response_stream = AsyncResponseStream (content r), extensions = []\<rparr>"
  using assms
  by (simp add: handle_result call_result_def convert_response_def encode_headers_ascii)

lemma body_stream_not_converted:
  assumes "convert_start req = Inr c" and "stream req = Some chunks"
  shows "convert_request req =
     Inl (TypeError (''StreamReader.__init__() missing 2 required positional arguments: '' @
                     repr ''protocol'' @ '' and '' @ repr ''limit''))"
  using assms by (simp add: convert_request_def read_body_def new_StreamReader_def)

text \<open>
  Claim C9: every request should lead to one engine call, with
  \<^verbatim>\<open>allow_redirects=False\<close>, whose response is returned with its status code. The
  calls that are sent have that flag and a returned response has the engine's status
  code, as the lemmas above say; but for a request whose body stream has
  \<^verbatim>\<open>__aiter__\<close> line 149 raises a \<^verbatim>\<open>TypeError\<close> before the engine call, so that no
  call is sent and no response returned, whatever the engine would answer.
\<close>

theorem body_stream_raises_before_engine_call:
  assumes "convert_start req = Inr c" and "stream req = Some chunks"
  shows "fst (handle_async_request a req t) =
       Inl (TypeError (''StreamReader.__init__() missing 2 required positional arguments: '' @
                       repr ''protocol'' @ '' and '' @ repr ''limit''))
     \<and> sent_calls (new_events t (snd (handle_async_request a req t))) = []"
proof -
  note conv = body_stream_not_converted [OF assms]
  have "map snd (sent_calls (new_events t (snd (handle_async_request a req t)))) = []"
    unfolding handle_sent_calls by (simp add: conv)
  then show ?thesis
    by (simp add: handle_result call_result_def conv)
qed

theorem body_stream_raises_before_engine_call_witness:
  "stream example_request = Some [Bytes []]
   \<and> fst (handle_async_request (Inr example_redirect) example_request example_transport) =
       Inl (TypeError (''StreamReader.__init__() missing 2 required positional arguments: '' @
                       [CHR 0x27] @ ''protocol'' @ [CHR 0x27] @ '' and '' @
                       [CHR 0x27] @ ''limit'' @ [CHR 0x27]))
   \<and> sent_calls (new_events example_transport
        (snd (handle_async_request (Inr example_redirect) example_request example_transport))) = []"
proof -
  have c: "convert_start example_request =
      Inr \<lparr>conv_url = ''https://httpbin.org/get'',
           conv_headers = py_dict (Headers_items (headers example_request)),
           conv_method = ''GET''\<rparr>"
    by (simp add: convert_start_def example_request_def)
  have s: "stream example_request = Some [Bytes []]" by (simp add: example_request_def)
  have r: "repr ''protocol'' = [CHR 0x27] @ ''protocol'' @ [CHR 0x27]"
      "repr ''limit'' = [CHR 0x27] @ ''limit'' @ [CHR 0x27]"
    by (simp_all add: repr_def repr_char_def quote_def dquote_def backslash_def printable_def
        Let_def)
  from body_stream_raises_before_engine_call [OF c s, of "Inr example_redirect" example_transport] s r
  show ?thesis by simp
qed

section \<open>Concurrent first calls\<close>

lemma task_step_started: "started (fst (task_step a tk t))"
  by (cases "(a, tk, t)" rule: task_step.cases)
    (auto simp: started_def start_task_def dispatch_def Let_def split: sum.splits option.splits prod.splits)

lemma dispatch_with_session:
  assumes "the_session t = Some s" and "dispatch c d t = (tk', t')"
  shows "the_session t' = Some s \<and> trace t' = trace t @ [RequestSent s (make_call c d)]"
  using assms by (auto simp: dispatch_def send_request_def)

lemma receive_effect:
  assumes "receive a t = (r, t')"
  shows "the_session t' = the_session t \<and> (\<exists>evs. trace t' = trace t @ evs \<and> made_sessions evs = [] \<and> sent_calls evs = [])"
  using assms by (auto simp: receive_def split: sum.splits)

lemma task_step_with_session:
  assumes "the_session t = Some s" and "task_step a tk t = (tk', t')"
  shows "the_session t' = Some s \<and>
     (\<exists>evs. trace t' = trace t @ evs \<and> made_sessions evs = []
        \<and> list_all (\<lambda>(s', c). s' = s) (sent_calls evs))"
proof (cases "(a, tk, t)" rule: task_step.cases)
  case (1 a' req t1)
  with assms have e: "ensure_session t = t" and st: "start_task req t = (tk', t')"
    by (simp_all add: ensure_session_def)
  show ?thesis
  proof (cases "convert_start req")
    case (Inl x)
    with st e assms(1) show ?thesis by (simp add: start_task_def)
  next
    case (Inr c)
    show ?thesis
    proof (cases "stream req")
      case None
      with st e Inr have "dispatch c None t = (tk', t')" by (simp add: start_task_def)
      from dispatch_with_session [OF assms(1) this] show ?thesis by simp
    next
      case (Some chunks)
      with st e Inr assms(1) show ?thesis by (auto simp: start_task_def split: sum.splits)
    qed
  qed
next
  case (2 a' c d chunk rest t1)
  with assms show ?thesis by simp
next
  case (3 a' c d t1)
  with assms have "dispatch c (Some (feed_eof d)) t = (tk', t')" by simp
  from dispatch_with_session [OF assms(1) this] show ?thesis by simp
next
  case (4 a' t1)
  with assms obtain r where "receive a t = (r, t')" by (auto split: prod.splits)
  from receive_effect [OF this] assms(1) show ?thesis by auto
next
  case (5 a' r t1)
  with assms show ?thesis by simp
qed

lemma start_task_without_session:
  assumes "the_session t = None" and "start_task req t = (tk', t')"
  shows "\<exists>s evs. the_session t' = Some s \<and> trace t' = trace t @ evs \<and> made_sessions evs = [s]
        \<and> list_all (\<lambda>(s', c). s' = s) (sent_calls evs)"
proof -
  let ?s = "ClientSession (trace t) (the_session_kwargs t)"
  let ?t1 = "ensure_session t"
  have s1: "the_session ?t1 = Some ?s" and tr1: "trace ?t1 = trace t @ [SessionCreated ?s]"
    using assms(1) by (simp_all add: ensure_session_def Let_def)
  have "the_session t' = Some ?s \<and>
     (\<exists>evs. trace t' = trace ?t1 @ evs \<and> made_sessions evs = []
        \<and> list_all (\<lambda>(s', c). s' = ?s) (sent_calls evs))"
  proof (cases "convert_start req")
    case (Inl x)
    with assms(2) s1 show ?thesis by (auto simp: start_task_def Let_def)
  next
    case (Inr c)
    show ?thesis
    proof (cases "stream req")
      case None
      with assms(2) Inr have "dispatch c None ?t1 = (tk', t')" by (simp add: start_task_def Let_def)
      from dispatch_with_session [OF s1 this] show ?thesis by simp
    next
      case (Some chunks)
      with assms(2) Inr s1 show ?thesis by (auto simp: start_task_def Let_def split: sum.splits)
    qed
  qed
  then obtain evs where "the_session t' = Some ?s" "trace t' = trace t @ SessionCreated ?s # evs"
    "made_sessions evs = []" "list_all (\<lambda>(s', c). s' = ?s) (sent_calls evs)"
    using tr1 by auto
  then show ?thesis by (intro exI [of _ ?s] exI [of _ "SessionCreated ?s # evs"]) simp
qed

lemma list_ex_update_started:
  assumes "i < length ts" and "started tk"
  shows "list_ex started (ts[i := tk])"
  using assms by (auto simp: list_ex_iff set_update_memI)

lemma not_started_nth:
  assumes "\<not> list_ex started ts" and "i < length ts"
  shows "\<exists>req. ts ! i = NotStarted req"
proof -
  from assms have "\<not> started (ts ! i)" by (auto simp: list_ex_iff)
  then show ?thesis by (cases "ts ! i") (auto simp: started_def)
qed

lemma one_session_step:
  assumes inv: "one_session tr0 (ts, t)" and i: "i < length ts"
    and step: "task_step a (ts ! i) t = (tk, t')"
  shows "one_session tr0 (ts[i := tk], t')"
proof -
  from step have "started tk" using task_step_started [of a "ts ! i" t] by simp
  with i have ex: "list_ex started (ts[i := tk])" by (rule list_ex_update_started)
  from inv obtain evs where tr: "trace t = tr0 @ evs"
    and c: "if list_ex started ts
           then \<exists>s. the_session t = Some s \<and> made_sessions evs = [s]
                  \<and> list_all (\<lambda>(s', c). s' = s) (sent_calls evs)
           else the_session t = None \<and> evs = []"
    by (auto simp: one_session_def)
  show ?thesis
  proof (cases "list_ex started ts")
    case True
    with c obtain s where s: "the_session t = Some s" "made_sessions evs = [s]"
      "list_all (\<lambda>(s', c). s' = s) (sent_calls evs)" by auto
    from task_step_with_session [OF s(1) step] obtain evs' where
      "the_session t' = Some s" "trace t' = trace t @ evs'" "made_sessions evs' = []"
      "list_all (\<lambda>(s', c). s' = s) (sent_calls evs')" by blast
    with s tr ex show ?thesis
      by (auto simp: one_session_def made_sessions_append sent_calls_append
          intro!: exI [of _ "evs @ evs'"])
  next
    case False
    with c have n: "the_session t = None" and e: "evs = []" by auto
    from not_started_nth [OF False i] obtain req where "ts ! i = NotStarted req" by blast
    with step have "start_task req t = (tk, t')" by simp
    from start_task_without_session [OF n this] obtain s evs' where
      "the_session t' = Some s" "trace t' = trace t @ evs'" "made_sessions evs' = [s]"
      "list_all (\<lambda>(s', c). s' = s) (sent_calls evs')" by blast
    with tr e ex show ?thesis
      by (auto simp: one_session_def intro!: exI [of _ evs'])
  qed
qed

lemma one_session_run:
  assumes "one_session tr0 st"
  shows "one_session tr0 (run sch st)"
  using assms
proof (induction sch st rule: run.induct)
  case (1 st)
  then show ?case by simp
next
  case (2 i a sch ts t)
  show ?case
  proof (cases "i < length ts")
    case True
    obtain tk t' where step: "task_step a (ts ! i) t = (tk, t')" by (cases "task_step a (ts ! i) t")
    from one_session_step [OF "2.prems" True step] have "one_session tr0 (ts[i := tk], t')" .
    from "2.IH"(1) [OF True step [symmetric] this] show ?thesis
      using True step by simp
  next
    case False
    with "2.IH"(2) "2.prems" show ?thesis by simp
  qed
qed

text \<open>
  Claim C1: two first calls of \<^verbatim>\<open>handle_async_request\<close> on a transport that has no
  session yet, interleaved in any way at their suspension points, make at most one
  session, and exactly one as soon as one of the calls has started: the test of
  \<^verbatim>\<open>self._session\<close> and the assignment to it are one step, so the call that runs
  second finds the session of the first. The attribute holds that session, and every
  request the two calls send goes to it.
\<close>

theorem concurrent_first_calls_make_one_session:
  assumes "the_session t = None"
    and "run sch ([NotStarted r1, NotStarted r2], t) = (ts, t')"
  shows "\<exists>evs. trace t' = trace t @ evs \<and> length (made_sessions evs) \<le> 1 \<and>
     (list_ex started ts \<longrightarrow>
        (\<exists>s. made_sessions evs = [s] \<and> the_session t' = Some s
           \<and> list_all (\<lambda>(s', c). s' = s) (sent_calls evs)))"
proof -
  have "one_session (trace t) ([NotStarted r1, NotStarted r2], t)"
    using assms(1) by (simp add: one_session_def started_def)
  then have "one_session (trace t) (run sch ([NotStarted r1, NotStarted r2], t))"
    by (rule one_session_run)
  with assms(2) show ?thesis
    by (auto simp: one_session_def split: if_splits)
qed


lemma run_finished: "run (replicate n (0, a)) ([Finished r], t) = ([Finished r], t)"
  by (induction n) simp_all

lemma run_awaiting:
  "run (replicate (Suc n) (0, a)) ([AwaitingEngine], t) =
     ([Finished (fst (receive a t))], snd (receive a t))"
  by (simp add: run_finished split: prod.splits)

text \<open>
  A call that runs alone, step by step, does what \<^verbatim>\<open>handle_async_request\<close> does.
\<close>

lemma single_call_is_handle_async_request:
  "run (replicate (Suc (Suc n)) (0, a)) ([NotStarted req], t) =
     ([Finished (fst (handle_async_request a req t))], snd (handle_async_request a req t))"
proof -
  obtain s where s: "the_session (ensure_session t) = Some s"
    by (cases "the_session t") (auto simp: ensure_session_def Let_def)
  show ?thesis
  proof (cases "convert_start req")
    case (Inl e)
    then show ?thesis
      by (simp add: start_task_def handle_async_request_def convert_request_def Let_def
          run_finished)
  next
    case (Inr c)
    show ?thesis
    proof (cases "stream req")
      case None
      with Inr s show ?thesis
        by (simp add: start_task_def handle_async_request_def convert_request_def Let_def
            dispatch_def send_request_def read_body_def run_finished split: prod.splits)
    next
      case (Some chunks)
      with Inr s show ?thesis
        by (simp add: start_task_def handle_async_request_def convert_request_def Let_def
            read_body_def new_StreamReader_def run_finished)
    qed
  qed
qed

lemma example_run_sessions:
  "made_sessions (new_events example_transport (snd (run example_schedule
      ([NotStarted example_plain_request, NotStarted example_duplicate_request], example_transport)))) =
     [example_session]
   \<and> map fst (sent_calls (new_events example_transport (snd (run example_schedule
      ([NotStarted example_plain_request, NotStarted example_duplicate_request], example_transport))))) =
     [example_session, example_session]
   \<and> list_all is_Finished (fst (run example_schedule
      ([NotStarted example_plain_request, NotStarted example_duplicate_request], example_transport)))"
  by (simp add: example_schedule_def example_plain_request_def example_duplicate_request_def
      example_transport_def example_session_def start_task_def dispatch_def send_request_def
      ensure_session_def ClientSession_def sessions_created_def is_SessionCreated_def
      convert_start_def decode_ascii_def is_ascii_def receive_def new_events_def
      is_Finished_def Let_def)

theorem concurrent_first_calls_make_one_session_witness:
  "the_session example_transport = None
   \<and> list_all is_Finished (fst (run example_schedule
        ([NotStarted example_plain_request, NotStarted example_duplicate_request], example_transport)))
   \<and> made_sessions (new_events example_transport (snd (run example_schedule
        ([NotStarted example_plain_request, NotStarted example_duplicate_request], example_transport)))) =
       [example_session]
   \<and> map fst (sent_calls (new_events example_transport (snd (run example_schedule
        ([NotStarted example_plain_request, NotStarted example_duplicate_request], example_transport))))) =
       [example_session, example_session]"
proof -
  have n: "the_session example_transport = None" by (simp add: example_transport_def)
  from concurrent_first_calls_make_one_session [OF n surjective_pairing,
      of example_schedule example_plain_request example_duplicate_request]
  obtain evs where "trace (snd (run example_schedule
      ([NotStarted example_plain_request, NotStarted example_duplicate_request], example_transport))) =
      trace example_transport @ evs" and "length (made_sessions evs) \<le> 1"
    by blast
  with n example_run_sessions show ?thesis by simp
qed

end
